theory Spec2Isabelle
  imports Complex_Main
begin

section \<open>JSON values and the JavaScript operators applied to them\<close>

text \<open>
  The relay (\<^verbatim>\<open>ws-relay.ts\<close>) receives upstream events as the result of
  \<^verbatim>\<open>JSON.parse\<close>, typed \<^verbatim>\<open>Record<string, unknown>\<close>: nothing is known about
  the fields, so an event is a JSON value. A number carries the value of the parsed
  double; an object carries its own properties. \<^verbatim>\<open>undefined\<close> (a missing
  property) is \<open>None\<close>.
\<close>

datatype json =
    JNull
  | JBool bool
  | JNum rat
  | JStr string
  | JArr "json list"
  | JObj "(string \<times> json) list"

text \<open>JavaScript truthiness, as tested by \<^verbatim>\<open>if (x)\<close> and \<^verbatim>\<open>x || y\<close>.\<close>

fun truthy :: "json option \<Rightarrow> bool" where
  "truthy None = False"
| "truthy (Some JNull) = False"
| "truthy (Some (JBool b)) = b"
| "truthy (Some (JNum n)) = (n \<noteq> 0)"
| "truthy (Some (JStr s)) = (s \<noteq> [])"
| "truthy (Some (JArr xs)) = True"
| "truthy (Some (JObj kvs)) = True"

text \<open>\<^verbatim>\<open>x || d\<close> where \<open>d\<close> is a defined value.\<close>

fun js_or :: "json option \<Rightarrow> json \<Rightarrow> json" where
  "js_or None d = d"
| "js_or (Some x) d = (if truthy (Some x) then x else d)"

text \<open>
  \<^verbatim>\<open>x.k\<close> on a value that is neither null nor undefined, for the keys the relay
  reads (none of them is a property of a built-in prototype): an object gives its own
  property, every other value gives undefined.
\<close>

fun js_get :: "json \<Rightarrow> string \<Rightarrow> json option" where
  "js_get (JObj kvs) k = map_of kvs k"
| "js_get JNull k = None"
| "js_get (JBool b) k = None"
| "js_get (JNum n) k = None"
| "js_get (JStr s) k = None"
| "js_get (JArr xs) k = None"

text \<open>\<^verbatim>\<open>x?.k\<close>: undefined when \<open>x\<close> is null or undefined.\<close>

fun js_get_opt :: "json option \<Rightarrow> string \<Rightarrow> json option" where
  "js_get_opt None k = None"
| "js_get_opt (Some x) k = js_get x k"

text \<open>
  \<^verbatim>\<open>eventType?.includes('audio')\<close> and \<^verbatim>\<open>eventType?.startsWith(...)\<close> call a
  method of the event type. A string has both; an array has \<^verbatim>\<open>includes\<close> only;
  on a boolean, a number or an object the call is a TypeError. Null and undefined
  short-circuit.
\<close>

fun includes_throws :: "json option \<Rightarrow> bool" where
  "includes_throws None = False"
| "includes_throws (Some JNull) = False"
| "includes_throws (Some (JStr s)) = False"
| "includes_throws (Some (JArr xs)) = False"
| "includes_throws (Some (JBool b)) = True"
| "includes_throws (Some (JNum n)) = True"
| "includes_throws (Some (JObj kvs)) = True"

fun startsWith_throws :: "json option \<Rightarrow> bool" where
  "startsWith_throws None = False"
| "startsWith_throws (Some JNull) = False"
| "startsWith_throws (Some (JStr s)) = False"
| "startsWith_throws (Some (JArr xs)) = True"
| "startsWith_throws (Some (JBool b)) = True"
| "startsWith_throws (Some (JNum n)) = True"
| "startsWith_throws (Some (JObj kvs)) = True"

section \<open>Messages\<close>

text \<open>\<^verbatim>\<open>SessionConfig\<close> and \<^verbatim>\<open>ClientMessage\<close> of \<^verbatim>\<open>types\<close>.\<close>

record SessionConfig =
  voice :: string
  prompt :: string
  inputCostPerMinute :: rat
  outputCostPerMinute :: rat
  agentSpeaksFirst :: bool

datatype ClientMessage =
    SessionStart SessionConfig
  | AudioInput string
  | SessionEnd

datatype role = User | Assistant

text \<open>
  \<^verbatim>\<open>ServerMessage\<close>. The fields filled from an upstream event hold whatever JSON
  value the event had there (the source's \<^verbatim>\<open>as string\<close> and \<^verbatim>\<open>as number\<close> are
  unchecked), so they are JSON values here.
\<close>

datatype ServerMessage =
    SessionCreated string
  | SessionReady
  | AudioOutput json
  | TranscriptPartial role json json
  | TranscriptFinal role json json
  | UsageUpdate json json json json
  | ErrorMessage json
  | SessionEnded

text \<open>The three instructions the relay sends upstream.\<close>

record turn_detection_settings =
  td_type :: string
  threshold :: rat
  prefix_padding_ms :: rat
  silence_duration_ms :: rat

record session_settings =
  modalities :: "string list"
  instructions :: string
  session_voice :: string
  input_audio_format :: string
  output_audio_format :: string
  input_audio_transcription_model :: string
  turn_detection :: turn_detection_settings

datatype UpstreamMessage =
    SessionUpdate session_settings
  | ResponseCreate "string list" string
  | InputAudioBufferAppend string

section \<open>Sockets, sessions and the state of the process\<close>

datatype readyState = CONNECTING | OPEN | CLOSING | CLOSED

datatype error = TypeError | WsNotOpen

text \<open>
  Sockets and session objects are shared between closures, so they live in a store
  and are named by references. A session object and the client socket it was created
  for share one reference.
\<close>

record ClientSession =
  clientWs :: nat
  openaiWs :: "nat option"
  sessionId :: string
  config :: "SessionConfig option"

text \<open>What the relay does to the outside, in order: the calls it makes on sockets.\<close>

datatype effect =
    ClientSend nat ServerMessage
  | UpstreamConnect nat string "(string \<times> string) list"
  | UpstreamSend nat UpstreamMessage
  | UpstreamCloseCall nat

record world =
  OPENAI_API_KEY :: "string option"
  sessions :: "string \<rightharpoonup> nat"
  heap :: "nat \<Rightarrow> ClientSession"
  nextSession :: nat
  clientReady :: "nat \<Rightarrow> readyState"
  upstreamReady :: "nat \<Rightarrow> readyState"
  upstreamSession :: "nat \<Rightarrow> nat"
  nextUpstream :: nat
  timers :: "nat list"
  effects :: "effect list"

definition andThen :: "error + 'a \<Rightarrow> ('a \<Rightarrow> error + 'b) \<Rightarrow> error + 'b" where
  "andThen r f = (case r of Inl e \<Rightarrow> Inl e | Inr x \<Rightarrow> f x)"

subsection \<open>The socket library\<close>

text \<open>
  \<^verbatim>\<open>send\<close> of the \<^verbatim>\<open>ws\<close> package throws while the socket is connecting and,
  depending on the version, throws or drops the frame once it is closing or closed.
  Every send on a socket that is not open counts as a failure here.
\<close>

definition ws_send_client :: "world \<Rightarrow> nat \<Rightarrow> ServerMessage \<Rightarrow> error + world" where
  "ws_send_client w c m =
     (if clientReady w c = OPEN
      then Inr (w\<lparr>effects := effects w @ [ClientSend c m]\<rparr>)
      else Inl WsNotOpen)"

text \<open>A method call on the session's upstream handle: a TypeError when it is null.\<close>

definition ws_send_upstream :: "world \<Rightarrow> nat option \<Rightarrow> UpstreamMessage \<Rightarrow> error + world" where
  "ws_send_upstream w h m =
     (case h of
        None \<Rightarrow> Inl TypeError
      | Some a \<Rightarrow>
          if upstreamReady w a = OPEN
          then Inr (w\<lparr>effects := effects w @ [UpstreamSend a m]\<rparr>)
          else Inl WsNotOpen)"

text \<open>
  \<^verbatim>\<open>close()\<close>: nothing on a closed socket; a connecting socket aborts its handshake,
  an open one starts the closing handshake, and both are closing from then on.
\<close>

fun closing :: "readyState \<Rightarrow> readyState" where
  "closing CLOSED = CLOSED"
| "closing CONNECTING = CLOSING"
| "closing OPEN = CLOSING"
| "closing CLOSING = CLOSING"

definition ws_close_upstream :: "world \<Rightarrow> nat option \<Rightarrow> error + world" where
  "ws_close_upstream w h =
     (case h of
        None \<Rightarrow> Inl TypeError
      | Some a \<Rightarrow>
          Inr (w\<lparr>upstreamReady := (upstreamReady w)(a := closing (upstreamReady w a)),
                 effects := effects w @ [UpstreamCloseCall a]\<rparr>))"

text \<open>\<^verbatim>\<open>session.openaiWs?.readyState\<close>.\<close>

definition handle_readyState :: "world \<Rightarrow> nat option \<Rightarrow> readyState option" where
  "handle_readyState w h = (case h of None \<Rightarrow> None | Some a \<Rightarrow> Some (upstreamReady w a))"

section \<open>The relay\<close>

definition OPENAI_REALTIME_URL :: string where
  "OPENAI_REALTIME_URL =
     ''wss://api.openai.com/v1/realtime?model=gpt-4o-mini-realtime-preview-2024-12-17''"

definition sendToClient :: "world \<Rightarrow> nat \<Rightarrow> ServerMessage \<Rightarrow> error + world" where
  "sendToClient w ws m =
     (if clientReady w ws = OPEN then ws_send_client w ws m else Inr w)"

definition set_openaiWs :: "world \<Rightarrow> nat \<Rightarrow> nat option \<Rightarrow> world" where
  "set_openaiWs w s h = w\<lparr>heap := (heap w)(s := (heap w s)\<lparr>openaiWs := h\<rparr>)\<rparr>"

definition set_config :: "world \<Rightarrow> nat \<Rightarrow> SessionConfig option \<Rightarrow> world" where
  "set_config w s c = w\<lparr>heap := (heap w)(s := (heap w s)\<lparr>config := c\<rparr>)\<rparr>"

subsection \<open>connectToOpenAI and the handlers it registers\<close>

text \<open>\<^verbatim>\<open>!apiKey\<close>: the variable is unset or empty.\<close>

fun no_key :: "string option \<Rightarrow> bool" where
  "no_key None = True"
| "no_key (Some k) = (k = [])"

definition connectToOpenAI :: "world \<Rightarrow> nat \<Rightarrow> error + world" where
  "connectToOpenAI w s =
     (if no_key (OPENAI_API_KEY w)
      then sendToClient w (clientWs (heap w s))
             (ErrorMessage (JStr ''OpenAI API key not configured''))
      else
        let a = nextUpstream w;
            w1 = w\<lparr>nextUpstream := Suc a,
                   upstreamReady := (upstreamReady w)(a := CONNECTING),
                   upstreamSession := (upstreamSession w)(a := s),
                   effects := effects w @
                     [UpstreamConnect a OPENAI_REALTIME_URL
                        [(''Authorization'',
                          ''Bearer '' @ (case OPENAI_API_KEY w of Some k \<Rightarrow> k | None \<Rightarrow> [])),
                         (''OpenAI-Beta'', ''realtime=v1'')]]\<rparr>
        in Inr (set_openaiWs w1 s (Some a)))"

text \<open>\<^verbatim>\<open>session.config?.prompt || 'You are a helpful assistant.'\<close> and the like.\<close>

definition config_string :: "SessionConfig option \<Rightarrow> (SessionConfig \<Rightarrow> string) \<Rightarrow> string \<Rightarrow> string" where
  "config_string c f d =
     (case c of None \<Rightarrow> d | Some cfg \<Rightarrow> if f cfg \<noteq> [] then f cfg else d)"

definition sessionUpdate :: "ClientSession \<Rightarrow> UpstreamMessage" where
  "sessionUpdate session =
     SessionUpdate
       \<lparr>modalities = [''text'', ''audio''],
        instructions = config_string (config session) prompt ''You are a helpful assistant.'',
        session_voice = config_string (config session) voice ''alloy'',
        input_audio_format = ''pcm16'',
        output_audio_format = ''pcm16'',
        input_audio_transcription_model = ''whisper-1'',
        turn_detection =
          \<lparr>td_type = ''server_vad'',
           threshold = 6 / 10,
           prefix_padding_ms = 200,
           silence_duration_ms = 700\<rparr>\<rparr>"

definition responseCreate :: UpstreamMessage where
  "responseCreate =
     ResponseCreate [''text'', ''audio'']
       ''Greet the user warmly and ask how you can help them today. Keep it brief and friendly.''"

text \<open>The callback given to \<^verbatim>\<open>setTimeout\<close>; \<open>a\<close> is the socket its closure holds.\<close>

definition greetingTimeout :: "world \<Rightarrow> nat \<Rightarrow> error + world" where
  "greetingTimeout w a =
     (if upstreamReady w a = OPEN then ws_send_upstream w (Some a) responseCreate else Inr w)"

text \<open>
  The handlers of an upstream socket \<open>a\<close>. Their closure holds the session object
  \<open>upstreamSession w a\<close> the socket was created for, and the socket itself.
\<close>

definition upstreamOnOpen :: "world \<Rightarrow> nat \<Rightarrow> error + world" where
  "upstreamOnOpen w a =
     (let s = upstreamSession w a in
      andThen (ws_send_upstream w (Some a) (sessionUpdate (heap w s))) (\<lambda>w1.
      andThen (sendToClient w1 (clientWs (heap w1 s)) SessionReady) (\<lambda>w2.
        if (case config (heap w2 s) of None \<Rightarrow> False | Some cfg \<Rightarrow> agentSpeaksFirst cfg)
        then Inr (w2\<lparr>timers := timers w2 @ [a]\<rparr>)
        else Inr w2)))"

definition upstreamOnError :: "world \<Rightarrow> nat \<Rightarrow> error + world" where
  "upstreamOnError w a =
     sendToClient w (clientWs (heap w (upstreamSession w a)))
       (ErrorMessage (JStr ''Connection to AI failed''))"

definition upstreamOnClose :: "world \<Rightarrow> nat \<Rightarrow> error + world" where
  "upstreamOnClose w a =
     (let s = upstreamSession w a in
      andThen (sendToClient w (clientWs (heap w s)) SessionEnded) (\<lambda>w1.
        Inr (set_openaiWs w1 s None)))"

subsection \<open>handleOpenAIEvent\<close>

text \<open>\<^verbatim>\<open>if (x) { ... x ... }\<close> on a field of the event.\<close>

fun if_truthy :: "json option \<Rightarrow> (json \<Rightarrow> error + world) \<Rightarrow> world \<Rightarrow> error + world" where
  "if_truthy None f w = Inr w"
| "if_truthy (Some x) f w = (if truthy (Some x) then f x else Inr w)"

definition ignored_events :: "string list" where
  "ignored_events =
     [''session.created'', ''session.updated'',
      ''input_audio_buffer.speech_started'', ''input_audio_buffer.speech_stopped'',
      ''input_audio_buffer.committed'', ''response.created'',
      ''response.output_item.added'', ''response.output_item.done'',
      ''response.content_part.added'', ''response.content_part.done'',
      ''rate_limits.updated'', ''conversation.item.created'']"

text \<open>
  Console output is not part of the state. What is kept of the two logging tests is
  that evaluating them can throw. \<^verbatim>\<open>switch\<close> compares with \<^verbatim>\<open>===\<close>, so a case is
  taken only when the event type is that string.
\<close>

definition handleOpenAIEvent :: "world \<Rightarrow> nat \<Rightarrow> json \<Rightarrow> error + world" where
  "handleOpenAIEvent w s event =
     (if event = JNull then Inl TypeError
      else
        let eventType = js_get event ''type'';
            c = clientWs (heap w s);
            itemId = js_or (js_get event ''item_id'') (JStr ''unknown'')
        in
        if includes_throws eventType then Inl TypeError
        else if eventType = Some (JStr ''response.audio.delta'') then
          if_truthy (js_get event ''delta'')
            (\<lambda>delta. sendToClient w c (AudioOutput delta)) w
        else if eventType = Some (JStr ''response.audio_transcript.delta'') then
          if_truthy (js_get event ''delta'')
            (\<lambda>delta. sendToClient w c (TranscriptPartial Assistant delta itemId)) w
        else if eventType = Some (JStr ''response.audio_transcript.done'') then
          if_truthy (js_get event ''transcript'')
            (\<lambda>transcript. sendToClient w c (TranscriptFinal Assistant transcript itemId)) w
        else if eventType = Some (JStr ''conversation.item.input_audio_transcription.completed'') then
          if_truthy (js_get event ''transcript'')
            (\<lambda>transcript. sendToClient w c (TranscriptFinal User transcript itemId)) w
        else if eventType = Some (JStr ''response.done'') then
          if_truthy (js_get_opt (js_get event ''response'') ''usage'')
            (\<lambda>usage.
               let inputTokenDetails = js_get usage ''input_token_details'';
                   outputTokenDetails = js_get usage ''output_token_details''
               in sendToClient w c
                    (UsageUpdate
                       (js_or (js_get usage ''input_tokens'') (JNum 0))
                       (js_or (js_get usage ''output_tokens'') (JNum 0))
                       (js_or (js_get_opt inputTokenDetails ''audio_tokens'') (JNum 0))
                       (js_or (js_get_opt outputTokenDetails ''audio_tokens'') (JNum 0)))) w
        else if eventType = Some (JStr ''error'') then
          sendToClient w c
            (ErrorMessage
               (js_or (js_get_opt (js_get event ''error'') ''message'')
                  (JStr ''Unknown error from AI'')))
        else if eventType \<in> set (map (\<lambda>t. Some (JStr t)) ignored_events) then Inr w
        else if startsWith_throws eventType then Inl TypeError
        else Inr w)"

text \<open>
  The message handler of an upstream socket. \<open>None\<close> is a frame that
  \<^verbatim>\<open>JSON.parse\<close> rejects. Both that and an exception of \<open>handleOpenAIEvent\<close> are
  caught and logged; \<open>handleOpenAIEvent\<close> throws only before it has sent anything.
\<close>

definition upstreamOnMessage :: "world \<Rightarrow> nat \<Rightarrow> json option \<Rightarrow> error + world" where
  "upstreamOnMessage w a data =
     (case data of
        None \<Rightarrow> Inr w
      | Some event \<Rightarrow>
          (case handleOpenAIEvent w (upstreamSession w a) event of
             Inl e \<Rightarrow> Inr w
           | Inr w' \<Rightarrow> Inr w'))"

subsection \<open>handleClientMessage\<close>

definition handleClientMessage :: "world \<Rightarrow> nat \<Rightarrow> ClientMessage \<Rightarrow> error + world" where
  "handleClientMessage w s message =
     (case message of
        SessionStart cfg \<Rightarrow> connectToOpenAI (set_config w s (Some cfg)) s
      | AudioInput audio \<Rightarrow>
          if handle_readyState w (openaiWs (heap w s)) = Some OPEN
          then ws_send_upstream w (openaiWs (heap w s)) (InputAudioBufferAppend audio)
          else Inr w
      | SessionEnd \<Rightarrow>
          andThen
            (if openaiWs (heap w s) \<noteq> None
             then andThen (ws_close_upstream w (openaiWs (heap w s)))
                    (\<lambda>w1. Inr (set_openaiWs w1 s None))
             else Inr w)
            (\<lambda>w2. sendToClient w2 (clientWs (heap w2 s)) SessionEnded))"

subsection \<open>startWebSocketServer: the handlers of a client connection\<close>

text \<open>
  The connection handler receives the new client socket \<open>ws\<close> (open) and a fresh
  session identifier; its closure variables \<^verbatim>\<open>ws\<close> and \<^verbatim>\<open>sessionId\<close> are the
  fields \<open>clientWs\<close> and \<open>sessionId\<close> of the session object, which nothing assigns
  afterwards.
\<close>

definition onConnection :: "world \<Rightarrow> nat \<Rightarrow> string \<Rightarrow> error + world" where
  "onConnection w ws sid =
     (let w1 = w\<lparr>heap := (heap w)(ws :=
                      \<lparr>clientWs = ws, openaiWs = None, sessionId = sid, config = None\<rparr>),
                   sessions := (sessions w)(sid \<mapsto> ws)\<rparr>
      in sendToClient w1 ws (SessionCreated sid))"

text \<open>
  \<open>None\<close> is a frame that \<^verbatim>\<open>JSON.parse\<close> rejects; \<open>Some m\<close> is a frame that
  parses to a value of the declared type \<^verbatim>\<open>ClientMessage\<close> (the cast in the source
  is unchecked; other JSON values are not represented). An exception of the parser or
  of \<open>handleClientMessage\<close> is answered with an error message.
\<close>

definition clientOnMessage :: "world \<Rightarrow> nat \<Rightarrow> ClientMessage option \<Rightarrow> error + world" where
  "clientOnMessage w s data =
     (case data of
        None \<Rightarrow>
          sendToClient w (clientWs (heap w s)) (ErrorMessage (JStr ''Invalid message format''))
      | Some message \<Rightarrow>
          (case handleClientMessage w s message of
             Inl e \<Rightarrow>
               sendToClient w (clientWs (heap w s))
                 (ErrorMessage (JStr ''Invalid message format''))
           | Inr w' \<Rightarrow> Inr w'))"

definition clientOnClose :: "world \<Rightarrow> nat \<Rightarrow> error + world" where
  "clientOnClose w s =
     andThen
       (if openaiWs (heap w s) \<noteq> None
        then ws_close_upstream w (openaiWs (heap w s))
        else Inr w)
       (\<lambda>w1. Inr (w1\<lparr>sessions := (sessions w1)(sessionId (heap w1 s) := None)\<rparr>))"

section \<open>The event loop\<close>

text \<open>
  One event is one callback run to completion. The socket library decides which
  events can occur: a socket opens only out of the connecting state, an error leaves
  it closing, the close event leaves it closed and comes once, frames arrive on a
  socket that is open (or, upstream, closing), and a timer fires once. An event that
  cannot occur changes nothing. The length of the greeting delay (500 ms) is not
  kept: a pending timer may fire at any later point. \<open>Inl\<close> is an exception that
  no handler catches.
\<close>

datatype event =
    Connection string
  | ClientMessageEv nat "ClientMessage option"
  | ClientCloseEv nat
  | ClientErrorEv nat
  | UpstreamOpenEv nat
  | UpstreamMessageEv nat "json option"
  | UpstreamErrorEv nat
  | UpstreamCloseEv nat
  | TimerEv nat

fun step :: "world \<Rightarrow> event \<Rightarrow> error + world" where
  "step w (Connection sid) =
     (let n = nextSession w
      in onConnection (w\<lparr>nextSession := Suc n, clientReady := (clientReady w)(n := OPEN)\<rparr>) n sid)"
| "step w (ClientMessageEv n data) =
     (if n < nextSession w \<and> clientReady w n = OPEN then clientOnMessage w n data else Inr w)"
| "step w (ClientCloseEv n) =
     (if n < nextSession w \<and> clientReady w n \<noteq> CLOSED
      then clientOnClose (w\<lparr>clientReady := (clientReady w)(n := CLOSED)\<rparr>) n
      else Inr w)"
| "step w (ClientErrorEv n) = Inr w"
| "step w (UpstreamOpenEv a) =
     (if a < nextUpstream w \<and> upstreamReady w a = CONNECTING
      then upstreamOnOpen (w\<lparr>upstreamReady := (upstreamReady w)(a := OPEN)\<rparr>) a
      else Inr w)"
| "step w (UpstreamMessageEv a data) =
     (if a < nextUpstream w \<and> (upstreamReady w a = OPEN \<or> upstreamReady w a = CLOSING)
      then upstreamOnMessage w a data
      else Inr w)"
| "step w (UpstreamErrorEv a) =
     (if a < nextUpstream w \<and> upstreamReady w a \<noteq> CLOSED
      then upstreamOnError (w\<lparr>upstreamReady := (upstreamReady w)(a := CLOSING)\<rparr>) a
      else Inr w)"
| "step w (UpstreamCloseEv a) =
     (if a < nextUpstream w \<and> upstreamReady w a \<noteq> CLOSED
      then upstreamOnClose (w\<lparr>upstreamReady := (upstreamReady w)(a := CLOSED)\<rparr>) a
      else Inr w)"
| "step w (TimerEv a) =
     (if a \<in> set (timers w)
      then greetingTimeout (w\<lparr>timers := remove1 a (timers w)\<rparr>) a
      else Inr w)"

fun run :: "world \<Rightarrow> event list \<Rightarrow> error + world" where
  "run w [] = Inr w"
| "run w (e # es) = andThen (step w e) (\<lambda>w'. run w' es)"

text \<open>The process after \<^verbatim>\<open>startWebSocketServer\<close>, before any connection.\<close>

definition start :: "string option \<Rightarrow> world" where
  "start key =
     \<lparr>OPENAI_API_KEY = key,
      sessions = Map.empty,
      heap = (\<lambda>_. \<lparr>clientWs = 0, openaiWs = None, sessionId = [], config = None\<rparr>),
      nextSession = 0,
      clientReady = (\<lambda>_. CLOSED),
      upstreamReady = (\<lambda>_. CLOSED),
      upstreamSession = (\<lambda>_. 0),
      nextUpstream = 0,
      timers = [],
      effects = []\<rparr>"

section \<open>Observations on the effects, and sample inputs\<close>

text \<open>The greeting instructions among the effects that went to upstream socket \<open>a\<close>.\<close>

fun is_greeting :: "nat \<Rightarrow> effect \<Rightarrow> bool" where
  "is_greeting a (UpstreamSend b (ResponseCreate ms i)) = (a = b)"
| "is_greeting a e = False"

definition greetings :: "nat \<Rightarrow> effect list \<Rightarrow> effect list" where
  "greetings a es = filter (is_greeting a) es"

text \<open>The frames among the effects that went to client socket \<open>c\<close>.\<close>

fun is_to_client :: "nat \<Rightarrow> effect \<Rightarrow> bool" where
  "is_to_client c (ClientSend d m) = (c = d)"
| "is_to_client c e = False"

definition sent_to_client :: "nat \<Rightarrow> effect list \<Rightarrow> effect list" where
  "sent_to_client c es = filter (is_to_client c) es"

text \<open>An upstream socket that exists and has left the open state for good.\<close>

definition shut :: "world \<Rightarrow> nat \<Rightarrow> bool" where
  "shut w a =
     (a < nextUpstream w \<and> (upstreamReady w a = CLOSING \<or> upstreamReady w a = CLOSED))"

text \<open>A client socket that exists and is not open.\<close>

definition client_gone :: "world \<Rightarrow> nat \<Rightarrow> bool" where
  "client_gone w c = (c < nextSession w \<and> clientReady w c \<noteq> OPEN)"

text \<open>
  The specification's reading of a token count: the number when the field is there,
  zero when it is missing.
\<close>

fun count_or_zero :: "rat option \<Rightarrow> json" where
  "count_or_zero None = JNum 0"
| "count_or_zero (Some n) = JNum n"

text \<open>
  The event of the specification's example:
  \<^verbatim>\<open>{type: "response.done", response: {usage: {input_tokens: 120, output_tokens: 45,
  input_token_details: {audio_tokens: 30}}}}\<close>.
\<close>

definition usage_example :: json where
  "usage_example =
     JObj [(''type'', JStr ''response.done''),
           (''response'', JObj [(''usage'',
              JObj [(''input_tokens'', JNum 120), (''output_tokens'', JNum 45),
                    (''input_token_details'', JObj [(''audio_tokens'', JNum 30)])])])]"

definition transcript_event :: "string \<Rightarrow> string \<Rightarrow> json" where
  "transcript_event t text =
     JObj [(''type'', JStr t), (''item_id'', JStr ''item_7''), (''transcript'', JStr text)]"

definition example_config :: "bool \<Rightarrow> SessionConfig" where
  "example_config greet =
     \<lparr>voice = ''shimmer'', prompt = ''Be brief.'', inputCostPerMinute = 0,
      outputCostPerMinute = 0, agentSpeaksFirst = greet\<rparr>"

text \<open>The state a run of events leaves, from a fresh process.\<close>

definition after :: "string option \<Rightarrow> event list \<Rightarrow> world" where
  "after key es = (case run (start key) es of Inr w \<Rightarrow> w | Inl e \<Rightarrow> start key)"

text \<open>One client connects and starts a session.\<close>

definition started :: "event list" where
  "started =
     [Connection ''session_1'',
      ClientMessageEv 0 (Some (SessionStart (example_config True)))]"

text \<open>... and the upstream connection opens.\<close>

definition opened :: "event list" where
  "opened = started @ [UpstreamOpenEv 0]"

text \<open>
  A session with an open upstream link receives \<^verbatim>\<open>session.end\<close>, and the link
  then reports its closure.
\<close>

definition ended :: "event list" where
  "ended = opened @ [ClientMessageEv 0 (Some SessionEnd), UpstreamCloseEv 0]"

text \<open>
  A client sends \<^verbatim>\<open>session.start\<close> twice, the first connection opens, and the
  client sends \<^verbatim>\<open>session.end\<close>.
\<close>

definition restarted_then_ended :: "event list" where
  "restarted_then_ended =
     [Connection ''session_1'',
      ClientMessageEv 0 (Some (SessionStart (example_config True))),
      ClientMessageEv 0 (Some (SessionStart (example_config True))),
      UpstreamOpenEv 0,
      ClientMessageEv 0 (Some SessionEnd)]"

section \<open>Basic facts\<close>

lemma andThen_Inr [simp]: "andThen (Inr x) f = f x"
  by (simp add: andThen_def)

lemma andThen_Inl [simp]: "andThen (Inl e) f = Inl e"
  by (simp add: andThen_def)

lemma sendToClient_eq:
  "sendToClient w c m =
     Inr (if clientReady w c = OPEN then w\<lparr>effects := effects w @ [ClientSend c m]\<rparr> else w)"
  by (simp add: sendToClient_def ws_send_client_def)

lemma if_truthy_eq: "if_truthy v f w = (if truthy v then f (the v) else Inr w)"
  by (cases v) auto

lemmas handler_defs =
  Let_def onConnection_def sendToClient_eq clientOnMessage_def clientOnClose_def
  upstreamOnOpen_def upstreamOnMessage_def upstreamOnError_def upstreamOnClose_def
  greetingTimeout_def ws_send_upstream_def ws_close_upstream_def handleClientMessage_def
  connectToOpenAI_def handle_readyState_def set_openaiWs_def set_config_def

lemmas eval_defs =
  after_def started_def opened_def start_def example_config_def handler_defs
  sessionUpdate_def responseCreate_def

text \<open>An upstream event changes nothing, or sends one frame to the session's client.\<close>

lemma handleOpenAIEvent_frame:
  assumes "handleOpenAIEvent w s ev = Inr w'"
  shows "w' = w \<or> (clientReady w (clientWs (heap w s)) = OPEN
            \<and> (\<exists>m. w' = w\<lparr>effects := effects w @ [ClientSend (clientWs (heap w s)) m]\<rparr>))"
  using assms unfolding handleOpenAIEvent_def Let_def sendToClient_eq if_truthy_eq
  by (auto split: if_splits)

text \<open>No event makes a handler throw past the event loop.\<close>

lemma handleClientMessage_total: "\<exists>w'. handleClientMessage w s m = Inr w'"
  by (cases m) (simp_all add: handler_defs split: option.splits)

lemma step_total: "\<exists>w'. step w e = Inr w'"
  by (cases e)
     (simp_all add: handler_defs split: option.splits sum.splits ClientMessage.splits)

lemma run_total: "\<exists>w'. run w es = Inr w'"
proof (induction es arbitrary: w)
  case Nil
  then show ?case by simp
next
  case (Cons e es)
  obtain w1 where "step w e = Inr w1" using step_total by blast
  with Cons.IH [of w1] show ?case by simp
qed

subsection \<open>A socket that is shut stays shut and gets no greeting\<close>

lemma greetings_Nil [simp]: "greetings a [] = []"
  by (simp add: greetings_def)

lemma greetings_Cons [simp]:
  "greetings a (x # xs) = (if is_greeting a x then x # greetings a xs else greetings a xs)"
  by (simp add: greetings_def)

lemma greetings_append [simp]: "greetings a (xs @ ys) = greetings a xs @ greetings a ys"
  by (simp add: greetings_def)

lemma is_greeting_sessionUpdate [simp]: "\<not> is_greeting a (UpstreamSend b (sessionUpdate se))"
  by (simp add: sessionUpdate_def)

lemma is_greeting_responseCreate [simp]: "is_greeting a (UpstreamSend b responseCreate) = (a = b)"
  by (simp add: responseCreate_def)

lemma closing_shut [simp]:
  "r = CLOSING \<or> r = CLOSED \<Longrightarrow> closing r = CLOSING \<or> closing r = CLOSED"
  by auto

lemma closing_not_open [simp]: "closing r \<noteq> OPEN" "closing r \<noteq> CONNECTING"
  by (cases r; simp)+

lemma handleClientMessage_shut:
  assumes "shut w a" and "handleClientMessage w s m = Inr w'"
  shows "shut w' a \<and> greetings a (effects w') = greetings a (effects w)"
  using assms
  by (cases m) (auto simp: shut_def handler_defs split: option.splits if_splits)

lemma handleOpenAIEvent_shut:
  assumes "shut w a" and "handleOpenAIEvent w s ev = Inr w'"
  shows "shut w' a \<and> greetings a (effects w') = greetings a (effects w)"
  using handleOpenAIEvent_frame [OF assms(2)] assms(1)
  by (auto simp: shut_def)

lemma step_shut:
  assumes "shut w a" and "step w e = Inr w'"
  shows "shut w' a \<and> greetings a (effects w') = greetings a (effects w)"
proof (cases e)
  case (ClientMessageEv n d)
  show ?thesis
  proof (cases d)
    case None
    with ClientMessageEv assms show ?thesis
      by (auto simp: shut_def handler_defs split: if_splits)
  next
    case (Some m)
    obtain w1 where h: "handleClientMessage w n m = Inr w1"
      using handleClientMessage_total by blast
    with ClientMessageEv Some assms have "w' = w1 \<or> w' = w"
      by (auto simp: clientOnMessage_def split: if_splits)
    with handleClientMessage_shut [OF assms(1) h] assms(1) show ?thesis by auto
  qed
next
  case (UpstreamMessageEv b d)
  with assms show ?thesis
    by (auto simp: upstreamOnMessage_def split: if_splits option.splits sum.splits
             dest: handleOpenAIEvent_shut)
qed (use assms in \<open>auto simp: shut_def handler_defs split: if_splits option.splits\<close>)

lemma run_shut:
  assumes "shut w a"
  shows "\<exists>w'. run w es = Inr w' \<and> shut w' a
           \<and> greetings a (effects w') = greetings a (effects w)"
  using assms
proof (induction es arbitrary: w)
  case Nil
  then show ?case by simp
next
  case (Cons e es)
  obtain w1 where s1: "step w e = Inr w1" using step_total by blast
  from step_shut [OF Cons.prems s1] Cons.IH [of w1] s1 show ?case by auto
qed

subsection \<open>A client socket that is not open stays so and gets no frame\<close>

lemma sent_to_client_Nil [simp]: "sent_to_client c [] = []"
  by (simp add: sent_to_client_def)

lemma sent_to_client_Cons [simp]:
  "sent_to_client c (x # xs) =
     (if is_to_client c x then x # sent_to_client c xs else sent_to_client c xs)"
  by (simp add: sent_to_client_def)

lemma sent_to_client_append [simp]:
  "sent_to_client c (xs @ ys) = sent_to_client c xs @ sent_to_client c ys"
  by (simp add: sent_to_client_def)

lemma handleClientMessage_client_gone:
  assumes "client_gone w c" and "handleClientMessage w s m = Inr w'"
  shows "client_gone w' c \<and> sent_to_client c (effects w') = sent_to_client c (effects w)"
  using assms
  by (cases m) (auto simp: client_gone_def handler_defs split: option.splits if_splits)

lemma handleOpenAIEvent_client_gone:
  assumes "client_gone w c" and "handleOpenAIEvent w s ev = Inr w'"
  shows "client_gone w' c \<and> sent_to_client c (effects w') = sent_to_client c (effects w)"
  using handleOpenAIEvent_frame [OF assms(2)] assms(1)
  by (auto simp: client_gone_def)

lemma step_client_gone:
  assumes "client_gone w c" and "step w e = Inr w'"
  shows "client_gone w' c \<and> sent_to_client c (effects w') = sent_to_client c (effects w)"
proof (cases e)
  case (ClientMessageEv n d)
  show ?thesis
  proof (cases d)
    case None
    with ClientMessageEv assms show ?thesis
      by (auto simp: client_gone_def handler_defs split: if_splits)
  next
    case (Some m)
    obtain w1 where h: "handleClientMessage w n m = Inr w1"
      using handleClientMessage_total by blast
    with ClientMessageEv Some assms have "w' = w1 \<or> w' = w"
      by (auto simp: clientOnMessage_def split: if_splits)
    with handleClientMessage_client_gone [OF assms(1) h] assms(1) show ?thesis by auto
  qed
next
  case (UpstreamMessageEv b d)
  with assms show ?thesis
    by (auto simp: upstreamOnMessage_def split: if_splits option.splits sum.splits
             dest: handleOpenAIEvent_client_gone)
qed (use assms in \<open>auto simp: client_gone_def handler_defs split: if_splits option.splits\<close>)

lemma run_client_gone:
  assumes "client_gone w c"
  shows "\<exists>w'. run w es = Inr w' \<and> client_gone w' c
           \<and> sent_to_client c (effects w') = sent_to_client c (effects w)"
  using assms
proof (induction es arbitrary: w)
  case Nil
  then show ?case by simp
next
  case (Cons e es)
  obtain w1 where s1: "step w e = Inr w1" using step_total by blast
  from step_client_gone [OF Cons.prems s1] Cons.IH [of w1] s1 show ?case by auto
qed

section \<open>Properties of the relay\<close>

text \<open>
  C1. A \<^verbatim>\<open>session.end\<close> from a connected client makes \<open>handleClientMessage\<close>
  close the upstream link if the session has one (so it is no longer open), clear the
  handle, and send one \<^verbatim>\<open>session.ended\<close> to the client, with or without an
  upstream link. A second \<^verbatim>\<open>session.end\<close>, now with a null handle, again sends
  one \<^verbatim>\<open>session.ended\<close> and does not throw. When a link was attached, that is not
  the only frame: the close event that the link emits afterwards is handled by the
  close handler of \<open>connectToOpenAI\<close>, which sends the client a further
  \<^verbatim>\<open>session.ended\<close>. So one \<^verbatim>\<open>session.end\<close> yields one \<^verbatim>\<open>session.ended\<close>
  from its handler, and a second one from the link's closure when there was a link.
\<close>

theorem session_end_emits_session_ended:
  assumes "clientReady w (clientWs (heap w s)) = OPEN"
  shows "\<exists>w'. handleClientMessage w s SessionEnd = Inr w'
           \<and> effects w' = effects w
                @ (case openaiWs (heap w s) of None \<Rightarrow> [] | Some a \<Rightarrow> [UpstreamCloseCall a])
                @ [ClientSend (clientWs (heap w s)) SessionEnded]
           \<and> (\<forall>a. openaiWs (heap w s) = Some a \<longrightarrow>
                  upstreamReady w' a = closing (upstreamReady w a) \<and> upstreamReady w' a \<noteq> OPEN)
           \<and> openaiWs (heap w' s) = None
           \<and> (\<exists>w''. handleClientMessage w' s SessionEnd = Inr w''
                 \<and> effects w'' = effects w' @ [ClientSend (clientWs (heap w s)) SessionEnded])
           \<and> (\<forall>a. openaiWs (heap w s) = Some a \<and> a < nextUpstream w
                    \<and> upstreamSession w a = s \<and> upstreamReady w a \<noteq> CLOSED \<longrightarrow>
                  (\<exists>w2. step w' (UpstreamCloseEv a) = Inr w2
                     \<and> effects w2 = effects w' @ [ClientSend (clientWs (heap w s)) SessionEnded]
                     \<and> openaiWs (heap w2 s) = None))"
proof (cases "openaiWs (heap w s)")
  case None
  with assms show ?thesis
    by (simp add: handler_defs)
next
  case (Some a)
  have c: "closing (upstreamReady w a) = CLOSED \<longleftrightarrow> upstreamReady w a = CLOSED"
    by (cases "upstreamReady w a") simp_all
  from Some assms show ?thesis
    by (simp add: handler_defs c)
qed

theorem session_end_emits_session_ended_witness:
  "clientReady (after (Some ''sk-test'') opened) 0 = OPEN
   \<and> (\<exists>w'. handleClientMessage (after (Some ''sk-test'') opened) 0 SessionEnd = Inr w'
        \<and> effects w' = effects (after (Some ''sk-test'') opened)
             @ [UpstreamCloseCall 0, ClientSend 0 SessionEnded]
        \<and> upstreamReady w' 0 = CLOSING
        \<and> openaiWs (heap w' 0) = None
        \<and> (\<exists>w''. handleClientMessage w' 0 SessionEnd = Inr w''
              \<and> effects w'' = effects w' @ [ClientSend 0 SessionEnded])
        \<and> (\<exists>w2. step w' (UpstreamCloseEv 0) = Inr w2
              \<and> effects w2 = effects w' @ [ClientSend 0 SessionEnded]))"
proof -
  have o: "clientReady (after (Some ''sk-test'') opened)
             (clientWs (heap (after (Some ''sk-test'') opened) 0)) = OPEN"
    by (simp add: eval_defs)
  have h: "openaiWs (heap (after (Some ''sk-test'') opened) 0) = Some 0"
      "clientWs (heap (after (Some ''sk-test'') opened) 0) = 0"
      "upstreamReady (after (Some ''sk-test'') opened) 0 = OPEN"
      "0 < nextUpstream (after (Some ''sk-test'') opened)"
      "upstreamSession (after (Some ''sk-test'') opened) 0 = 0"
    by (simp_all add: eval_defs)
  from session_end_emits_session_ended [OF o]
  obtain w' where w':
    "handleClientMessage (after (Some ''sk-test'') opened) 0 SessionEnd = Inr w'"
    "effects w' = effects (after (Some ''sk-test'') opened)
             @ [UpstreamCloseCall 0, ClientSend 0 SessionEnded]"
    "upstreamReady w' 0 = CLOSING"
    "openaiWs (heap w' 0) = None"
    "\<exists>w''. handleClientMessage w' 0 SessionEnd = Inr w''
              \<and> effects w'' = effects w' @ [ClientSend 0 SessionEnded]"
    "\<exists>w2. step w' (UpstreamCloseEv 0) = Inr w2
              \<and> effects w2 = effects w' @ [ClientSend 0 SessionEnded]"
    unfolding h by (auto simp: h)
  with o show ?thesis
    unfolding h by blast
qed

text \<open>
  The client of a session with an open link sends one \<^verbatim>\<open>session.end\<close> and
  receives two \<^verbatim>\<open>session.ended\<close>.
\<close>

theorem session_end_two_session_ended_counterexample:
  "sent_to_client 0 (effects (after (Some ''sk-test'') ended)) =
     [ClientSend 0 (SessionCreated ''session_1''), ClientSend 0 SessionReady,
      ClientSend 0 SessionEnded, ClientSend 0 SessionEnded]"
  by (simp add: eval_defs ended_def)

text \<open>
  C2. An upstream \<^verbatim>\<open>response.done\<close> event that carries usage always yields one
  \<^verbatim>\<open>usage.update\<close>: each of the four counts (input tokens, output tokens, and the
  audio tokens nested in the input and output details) is the number the event holds
  there, and zero where the field is missing. For the usage
  \<^verbatim>\<open>{input_tokens: 120, output_tokens: 45, input_token_details: {audio_tokens: 30}}\<close>
  the message is \<^verbatim>\<open>usage.update{inputTokens: 120, outputTokens: 45, audioInputMs: 30,
  audioOutputMs: 0}\<close>.
\<close>

theorem usage_update_zero_filled:
  assumes "js_get ev ''type'' = Some (JStr ''response.done'')"
    and "js_get_opt (js_get ev ''response'') ''usage'' = Some usage"
    and "truthy (Some usage)"
    and "js_get usage ''input_tokens'' = map_option JNum i"
    and "js_get usage ''output_tokens'' = map_option JNum out"
    and "js_get_opt (js_get usage ''input_token_details'') ''audio_tokens'' = map_option JNum ai"
    and "js_get_opt (js_get usage ''output_token_details'') ''audio_tokens'' = map_option JNum ao"
    and "clientReady w (clientWs (heap w s)) = OPEN"
  shows "handleOpenAIEvent w s ev =
           Inr (w\<lparr>effects := effects w @
                  [ClientSend (clientWs (heap w s))
                     (UsageUpdate (count_or_zero i) (count_or_zero out)
                        (count_or_zero ai) (count_or_zero ao))]\<rparr>)
         \<and> handleOpenAIEvent w s usage_example =
           Inr (w\<lparr>effects := effects w @
                  [ClientSend (clientWs (heap w s))
                     (UsageUpdate (JNum 120) (JNum 45) (JNum 30) (JNum 0))]\<rparr>)"
proof -
  have nn: "ev \<noteq> JNull" using assms(1) by auto
  have z: "js_or (map_option JNum v) (JNum 0) = count_or_zero v" for v
    by (cases v) auto
  have g: "handleOpenAIEvent w s ev =
           Inr (w\<lparr>effects := effects w @
                  [ClientSend (clientWs (heap w s))
                     (UsageUpdate (count_or_zero i) (count_or_zero out)
                        (count_or_zero ai) (count_or_zero ao))]\<rparr>)"
    using nn assms(3,8)
    by (simp add: handleOpenAIEvent_def Let_def assms(1,2,4,5,6,7) sendToClient_eq z)
  have e: "handleOpenAIEvent w s usage_example =
           Inr (w\<lparr>effects := effects w @
                  [ClientSend (clientWs (heap w s))
                     (UsageUpdate (JNum 120) (JNum 45) (JNum 30) (JNum 0))]\<rparr>)"
    using assms(8)
    by (simp add: handleOpenAIEvent_def usage_example_def Let_def sendToClient_eq)
  from g e show ?thesis by simp
qed

theorem usage_update_zero_filled_witness:
  "clientReady (after (Some ''sk-test'') opened) 0 = OPEN
   \<and> truthy (js_get_opt (js_get usage_example ''response'') ''usage'')
   \<and> handleOpenAIEvent (after (Some ''sk-test'') opened) 0 usage_example =
       Inr ((after (Some ''sk-test'') opened)
             \<lparr>effects := effects (after (Some ''sk-test'') opened) @
                [ClientSend 0 (UsageUpdate (JNum 120) (JNum 45) (JNum 30) (JNum 0))]\<rparr>)"
proof -
  let ?u = "JObj [(''input_tokens'', JNum 120), (''output_tokens'', JNum 45),
                  (''input_token_details'', JObj [(''audio_tokens'', JNum 30)])]"
  have o: "clientReady (after (Some ''sk-test'') opened)
             (clientWs (heap (after (Some ''sk-test'') opened) 0)) = OPEN"
    by (simp add: eval_defs)
  have c: "clientWs (heap (after (Some ''sk-test'') opened) 0) = 0"
    by (simp add: eval_defs)
  have 1: "js_get usage_example ''type'' = Some (JStr ''response.done'')"
    by (simp add: usage_example_def)
  have 2: "js_get_opt (js_get usage_example ''response'') ''usage'' = Some ?u"
    by (simp add: usage_example_def)
  have 3: "truthy (Some ?u)" by simp
  have 4: "js_get ?u ''input_tokens'' = map_option JNum (Some 120)" by simp
  have 5: "js_get ?u ''output_tokens'' = map_option JNum (Some 45)" by simp
  have 6: "js_get_opt (js_get ?u ''input_token_details'') ''audio_tokens''
             = map_option JNum (Some 30)"
    by simp
  have 7: "js_get_opt (js_get ?u ''output_token_details'') ''audio_tokens''
             = map_option JNum None"
    by simp
  from usage_update_zero_filled [OF 1 2 3 4 5 6 7 o] o 2 show ?thesis
    by (simp add: c)
qed

text \<open>
  C3. An upstream finalized-transcript event (\<^verbatim>\<open>response.audio_transcript.done\<close> of
  the assistant, \<^verbatim>\<open>conversation.item.input_audio_transcription.completed\<close> of the
  user) whose transcript is the empty string sends nothing and changes nothing. With
  a non-empty transcript, one \<^verbatim>\<open>transcript.final\<close> with the matching role and that
  text goes to the connected client.
\<close>

theorem empty_transcript_not_forwarded:
  assumes "js_get ev ''type'' = Some (JStr t)"
    and "t = ''response.audio_transcript.done''
         \<or> t = ''conversation.item.input_audio_transcription.completed''"
    and "js_get ev ''transcript'' = Some (JStr text)"
  shows "(text = [] \<longrightarrow> handleOpenAIEvent w s ev = Inr w)
       \<and> (text \<noteq> [] \<and> clientReady w (clientWs (heap w s)) = OPEN \<longrightarrow>
            handleOpenAIEvent w s ev =
              Inr (w\<lparr>effects := effects w @
                     [ClientSend (clientWs (heap w s))
                        (TranscriptFinal
                           (if t = ''response.audio_transcript.done'' then Assistant else User)
                           (JStr text)
                           (js_or (js_get ev ''item_id'') (JStr ''unknown'')))]\<rparr>))"
proof -
  have nn: "ev \<noteq> JNull" using assms(1) by auto
  from assms(2) show ?thesis
  proof
    assume t: "t = ''response.audio_transcript.done''"
    show ?thesis
      using nn by (simp add: handleOpenAIEvent_def Let_def assms(1,3) t sendToClient_eq)
  next
    assume t: "t = ''conversation.item.input_audio_transcription.completed''"
    show ?thesis
      using nn by (simp add: handleOpenAIEvent_def Let_def assms(1,3) t sendToClient_eq)
  qed
qed

theorem empty_transcript_not_forwarded_witness:
  "handleOpenAIEvent (after (Some ''sk-test'') opened) 0
      (transcript_event ''response.audio_transcript.done'' [])
     = Inr (after (Some ''sk-test'') opened)
   \<and> handleOpenAIEvent (after (Some ''sk-test'') opened) 0
      (transcript_event ''conversation.item.input_audio_transcription.completed'' ''hello'')
     = Inr ((after (Some ''sk-test'') opened)
             \<lparr>effects := effects (after (Some ''sk-test'') opened) @
                [ClientSend 0 (TranscriptFinal User (JStr ''hello'') (JStr ''item_7''))]\<rparr>)"
proof -
  have o: "clientReady (after (Some ''sk-test'') opened)
             (clientWs (heap (after (Some ''sk-test'') opened) 0)) = OPEN"
    by (simp add: eval_defs)
  have c: "clientWs (heap (after (Some ''sk-test'') opened) 0) = 0"
    by (simp add: eval_defs)
  have a: "handleOpenAIEvent (after (Some ''sk-test'') opened) 0
      (transcript_event ''response.audio_transcript.done'' [])
     = Inr (after (Some ''sk-test'') opened)"
    using empty_transcript_not_forwarded
      [of "transcript_event ''response.audio_transcript.done'' []"
          "''response.audio_transcript.done''" "[]" "after (Some ''sk-test'') opened" 0]
    by (simp add: transcript_event_def)
  have b: "handleOpenAIEvent (after (Some ''sk-test'') opened) 0
      (transcript_event ''conversation.item.input_audio_transcription.completed'' ''hello'')
     = Inr ((after (Some ''sk-test'') opened)
             \<lparr>effects := effects (after (Some ''sk-test'') opened) @
                [ClientSend 0 (TranscriptFinal User (JStr ''hello'') (JStr ''item_7''))]\<rparr>)"
    using empty_transcript_not_forwarded
      [of "transcript_event ''conversation.item.input_audio_transcription.completed'' ''hello''"
          "''conversation.item.input_audio_transcription.completed''" "''hello''"
          "after (Some ''sk-test'') opened" 0] o
    by (simp add: transcript_event_def c)
  from a b show ?thesis by simp
qed

text \<open>
  C4. When the client transport closes, the close handler closes the upstream
  connection if one is attached (it is then neither open nor connecting) and removes
  the session identifier from the registry whether or not there was one: afterwards
  the registry has no entry for that identifier, and every other entry is as before.
\<close>

theorem client_close_removes_session:
  "\<exists>w'. clientOnClose w s = Inr w'
     \<and> sessions w' (sessionId (heap w s)) = None
     \<and> (\<forall>k. k \<noteq> sessionId (heap w s) \<longrightarrow> sessions w' k = sessions w k)
     \<and> (\<forall>a. openaiWs (heap w s) = Some a \<longrightarrow>
            effects w' = effects w @ [UpstreamCloseCall a]
            \<and> upstreamReady w' a = closing (upstreamReady w a)
            \<and> upstreamReady w' a \<noteq> OPEN \<and> upstreamReady w' a \<noteq> CONNECTING)
     \<and> (openaiWs (heap w s) = None \<longrightarrow>
            effects w' = effects w \<and> upstreamReady w' = upstreamReady w)"
proof (cases "openaiWs (heap w s)")
  case None
  then show ?thesis by (simp add: handler_defs)
next
  case (Some a)
  then show ?thesis by (simp add: handler_defs)
qed

theorem client_close_removes_session_witness:
  "sessions (after (Some ''sk-test'') opened) ''session_1'' = Some 0
   \<and> (\<exists>w'. clientOnClose (after (Some ''sk-test'') opened) 0 = Inr w'
        \<and> sessions w' ''session_1'' = None
        \<and> effects w' = effects (after (Some ''sk-test'') opened) @ [UpstreamCloseCall 0]
        \<and> upstreamReady w' 0 = CLOSING)"
proof -
  have h: "openaiWs (heap (after (Some ''sk-test'') opened) 0) = Some 0"
      "sessionId (heap (after (Some ''sk-test'') opened) 0) = ''session_1''"
      "upstreamReady (after (Some ''sk-test'') opened) 0 = OPEN"
      "sessions (after (Some ''sk-test'') opened) ''session_1'' = Some 0"
    by (simp_all add: eval_defs)
  from client_close_removes_session [of "after (Some ''sk-test'') opened" 0] show ?thesis
    by (auto simp: h)
qed

text \<open>
  C5. With \<^verbatim>\<open>agentSpeaksFirst\<close> set, the open handler does not send the greeting
  itself: it schedules it. When the delay expires, the greeting instruction (one
  \<^verbatim>\<open>response.create\<close> with greeting guidance) goes upstream if the connection is
  open at that moment, and otherwise nothing happens and nothing fails.
  \<^verbatim>\<open>session.end\<close> closes the connection that is the session's upstream link at
  that moment. Hence, once \<^verbatim>\<open>session.end\<close> has arrived, no greeting is sent on
  that link, nor on any connection that was already closing or closed, by the handler
  or by anything that happens later, the timer included.
\<close>

theorem greeting_skipped_after_session_end:
  "(upstreamReady w a = OPEN \<longrightarrow>
      greetingTimeout w a = Inr (w\<lparr>effects := effects w @ [UpstreamSend a responseCreate]\<rparr>))
   \<and> (upstreamReady w a \<noteq> OPEN \<longrightarrow> greetingTimeout w a = Inr w)
   \<and> (a < nextUpstream w \<and> upstreamReady w a = CONNECTING
        \<and> config (heap w (upstreamSession w a)) = Some cfg \<longrightarrow>
        (\<exists>w'. step w (UpstreamOpenEv a) = Inr w'
           \<and> timers w' = timers w @ (if agentSpeaksFirst cfg then [a] else [])
           \<and> greetings a (effects w') = greetings a (effects w)))
   \<and> (a < nextUpstream w \<and> openaiWs (heap w s) = Some a \<longrightarrow>
        (\<exists>w1. handleClientMessage w s SessionEnd = Inr w1
           \<and> (\<forall>es. \<exists>w2. run w1 es = Inr w2
                  \<and> greetings a (effects w2) = greetings a (effects w)
                  \<and> (\<forall>b. shut w b \<longrightarrow>
                         greetings b (effects w2) = greetings b (effects w)))))"
proof -
  have timer: "(upstreamReady w a = OPEN \<longrightarrow>
      greetingTimeout w a = Inr (w\<lparr>effects := effects w @ [UpstreamSend a responseCreate]\<rparr>))
   \<and> (upstreamReady w a \<noteq> OPEN \<longrightarrow> greetingTimeout w a = Inr w)"
    by (simp add: greetingTimeout_def ws_send_upstream_def)
  have at_open: "\<exists>w'. step w (UpstreamOpenEv a) = Inr w'
           \<and> timers w' = timers w @ (if agentSpeaksFirst cfg then [a] else [])
           \<and> greetings a (effects w') = greetings a (effects w)"
    if "a < nextUpstream w" "upstreamReady w a = CONNECTING"
       "config (heap w (upstreamSession w a)) = Some cfg"
    using that by (simp add: handler_defs)
  have at_end: "\<exists>w1. handleClientMessage w s SessionEnd = Inr w1
           \<and> (\<forall>es. \<exists>w2. run w1 es = Inr w2
                  \<and> greetings a (effects w2) = greetings a (effects w)
                  \<and> (\<forall>b. shut w b \<longrightarrow>
                         greetings b (effects w2) = greetings b (effects w)))"
    if "a < nextUpstream w" "openaiWs (heap w s) = Some a"
  proof -
    obtain w1 where h: "handleClientMessage w s SessionEnd = Inr w1"
      using handleClientMessage_total by blast
    have now: "greetings a (effects w1) = greetings a (effects w)"
      using h that by (auto simp: handler_defs split: if_splits)
    have "upstreamReady w1 a = closing (upstreamReady w a)" "nextUpstream w1 = nextUpstream w"
      using h that by (auto simp: handler_defs split: if_splits)
    then have sa: "shut w1 a"
      using that(1) by (cases "upstreamReady w a") (simp_all add: shut_def)
    have keep: "greetings b (effects w2) = greetings b (effects w)"
      if "shut w b" "run w1 es = Inr w2" for b es w2
      using handleClientMessage_shut [OF that(1) h] run_shut [of w1 b es] that(2) by auto
    have "\<exists>w2. run w1 es = Inr w2
            \<and> greetings a (effects w2) = greetings a (effects w)
            \<and> (\<forall>b. shut w b \<longrightarrow> greetings b (effects w2) = greetings b (effects w))"
      for es
    proof -
      obtain w2 where r: "run w1 es = Inr w2" using run_total by blast
      from run_shut [OF sa, of es] now r
      have "greetings a (effects w2) = greetings a (effects w)" by auto
      with r keep show ?thesis by blast
    qed
    with h show ?thesis by simp
  qed
  from timer at_open at_end show ?thesis by blast
qed

theorem greeting_skipped_after_session_end_witness:
  "(\<exists>w'. step (after (Some ''sk-test'') started) (UpstreamOpenEv 0) = Inr w'
      \<and> timers w' = [0] \<and> greetings 0 (effects w') = [])
   \<and> greetingTimeout (after (Some ''sk-test'') opened) 0 =
       Inr ((after (Some ''sk-test'') opened)
              \<lparr>effects := effects (after (Some ''sk-test'') opened) @
                 [UpstreamSend 0 responseCreate]\<rparr>)
   \<and> openaiWs (heap (after (Some ''sk-test'') opened) 0) = Some 0
   \<and> (\<exists>w1. handleClientMessage (after (Some ''sk-test'') opened) 0 SessionEnd = Inr w1
        \<and> (\<exists>w2. run w1 [TimerEv 0, UpstreamCloseEv 0] = Inr w2
              \<and> greetings 0 (effects w2) = []))"
proof -
  have g: "0 < nextUpstream (after (Some ''sk-test'') started)"
      "upstreamReady (after (Some ''sk-test'') started) 0 = CONNECTING"
      "config (heap (after (Some ''sk-test'') started)
                 (upstreamSession (after (Some ''sk-test'') started) 0))
         = Some (example_config True)"
      "timers (after (Some ''sk-test'') started) = []"
      "greetings 0 (effects (after (Some ''sk-test'') started)) = []"
      "agentSpeaksFirst (example_config True)"
    by (simp_all add: eval_defs)
  have h: "upstreamReady (after (Some ''sk-test'') opened) 0 = OPEN"
      "openaiWs (heap (after (Some ''sk-test'') opened) 0) = Some 0"
      "0 < nextUpstream (after (Some ''sk-test'') opened)"
      "greetings 0 (effects (after (Some ''sk-test'') opened)) = []"
    by (simp_all add: eval_defs)
  from greeting_skipped_after_session_end
         [of "after (Some ''sk-test'') started" 0 "example_config True" 0]
  have a: "\<exists>w'. step (after (Some ''sk-test'') started) (UpstreamOpenEv 0) = Inr w'
      \<and> timers w' = [0] \<and> greetings 0 (effects w') = []"
    using g by simp
  from greeting_skipped_after_session_end
         [of "after (Some ''sk-test'') opened" 0 "example_config True" 0]
  have b: "greetingTimeout (after (Some ''sk-test'') opened) 0 =
       Inr ((after (Some ''sk-test'') opened)
              \<lparr>effects := effects (after (Some ''sk-test'') opened) @
                 [UpstreamSend 0 responseCreate]\<rparr>)"
    using h by simp
  from greeting_skipped_after_session_end
         [of "after (Some ''sk-test'') opened" 0 "example_config True" 0]
  have c: "\<exists>w1. handleClientMessage (after (Some ''sk-test'') opened) 0 SessionEnd = Inr w1
           \<and> (\<forall>es. \<exists>w2. run w1 es = Inr w2
                  \<and> greetings 0 (effects w2) = [])"
    using h by simp blast
  from c have "\<exists>w1. handleClientMessage (after (Some ''sk-test'') opened) 0 SessionEnd = Inr w1
        \<and> (\<exists>w2. run w1 [TimerEv 0, UpstreamCloseEv 0] = Inr w2
              \<and> greetings 0 (effects w2) = [])"
    by blast
  with a b h(2) show ?thesis by simp
qed

text \<open>
  After a second \<^verbatim>\<open>session.start\<close> the first connection is no longer the
  session's link: \<^verbatim>\<open>session.end\<close> leaves it open, and its timer, firing after
  \<^verbatim>\<open>session.end\<close>, sends the greeting on it.
\<close>

theorem greeting_after_session_end_counterexample:
  "last (effects (after (Some ''sk-test'') restarted_then_ended)) = ClientSend 0 SessionEnded
   \<and> effects (after (Some ''sk-test'') (restarted_then_ended @ [TimerEv 0])) =
       effects (after (Some ''sk-test'') restarted_then_ended) @ [UpstreamSend 0 responseCreate]"
  by (simp add: eval_defs restarted_then_ended_def)

text \<open>
  C6. When the upstream transport fails to open, the socket reports the error and
  then its closure. The relay sends the client the generic error
  \<^verbatim>\<open>Connection to AI failed\<close> (followed by \<^verbatim>\<open>session.ended\<close>), the session's
  upstream handle ends up null, and the session stays alive: its registry entry, its
  client socket and its configuration are untouched, and a new \<^verbatim>\<open>session.start\<close>
  makes a fresh connection attempt.
\<close>

theorem connect_failure_reported:
  assumes "a < nextUpstream w"
    and "upstreamReady w a = CONNECTING"
    and "upstreamSession w a = s"
    and "openaiWs (heap w s) = Some a"
    and "clientReady w (clientWs (heap w s)) = OPEN"
    and "\<not> no_key (OPENAI_API_KEY w)"
  shows "\<exists>w'. run w [UpstreamErrorEv a, UpstreamCloseEv a] = Inr w'
           \<and> effects w' = effects w @
                [ClientSend (clientWs (heap w s)) (ErrorMessage (JStr ''Connection to AI failed'')),
                 ClientSend (clientWs (heap w s)) SessionEnded]
           \<and> openaiWs (heap w' s) = None
           \<and> sessions w' = sessions w
           \<and> clientReady w' = clientReady w
           \<and> config (heap w' s) = config (heap w s)
           \<and> nextUpstream w' = nextUpstream w
           \<and> (\<forall>cfg. \<exists>w''. handleClientMessage w' s (SessionStart cfg) = Inr w''
                  \<and> openaiWs (heap w'' s) = Some (nextUpstream w)
                  \<and> upstreamReady w'' (nextUpstream w) = CONNECTING
                  \<and> config (heap w'' s) = Some cfg)"
  using assms by (simp add: handler_defs)

theorem connect_failure_reported_witness:
  "upstreamReady (after (Some ''sk-test'') started) 0 = CONNECTING
   \<and> openaiWs (heap (after (Some ''sk-test'') started) 0) = Some 0
   \<and> (\<exists>w'. run (after (Some ''sk-test'') started) [UpstreamErrorEv 0, UpstreamCloseEv 0] = Inr w'
        \<and> effects w' = effects (after (Some ''sk-test'') started) @
             [ClientSend 0 (ErrorMessage (JStr ''Connection to AI failed'')),
              ClientSend 0 SessionEnded]
        \<and> openaiWs (heap w' 0) = None
        \<and> sessions w' ''session_1'' = Some 0
        \<and> (\<exists>w''. handleClientMessage w' 0 (SessionStart (example_config False)) = Inr w''
               \<and> openaiWs (heap w'' 0) = Some 1
               \<and> upstreamReady w'' 1 = CONNECTING))"
proof -
  have h: "0 < nextUpstream (after (Some ''sk-test'') started)"
      "upstreamReady (after (Some ''sk-test'') started) 0 = CONNECTING"
      "upstreamSession (after (Some ''sk-test'') started) 0 = 0"
      "openaiWs (heap (after (Some ''sk-test'') started) 0) = Some 0"
      "clientReady (after (Some ''sk-test'') started)
         (clientWs (heap (after (Some ''sk-test'') started) 0)) = OPEN"
      "\<not> no_key (OPENAI_API_KEY (after (Some ''sk-test'') started))"
    by (simp_all add: eval_defs)
  have g: "clientWs (heap (after (Some ''sk-test'') started) 0) = 0"
      "nextUpstream (after (Some ''sk-test'') started) = 1"
      "sessions (after (Some ''sk-test'') started) ''session_1'' = Some 0"
    by (simp_all add: eval_defs)
  from connect_failure_reported [OF h] h(2,4) show ?thesis
    unfolding g by (metis g(3))
qed

text \<open>
  C7. A \<^verbatim>\<open>session.start\<close> received while the process has no API credential is
  answered at once with the configuration error \<^verbatim>\<open>OpenAI API key not configured\<close>
  (to a connected client). No upstream socket is created and no connection is
  attempted, and the session's upstream handle is what it was: null stays null.
\<close>

theorem missing_credential_reported:
  assumes "no_key (OPENAI_API_KEY w)"
  shows "\<exists>w'. handleClientMessage w s (SessionStart cfg) = Inr w'
           \<and> (clientReady w (clientWs (heap w s)) = OPEN \<longrightarrow>
                effects w' = effects w @
                  [ClientSend (clientWs (heap w s))
                     (ErrorMessage (JStr ''OpenAI API key not configured''))])
           \<and> (clientReady w (clientWs (heap w s)) \<noteq> OPEN \<longrightarrow> effects w' = effects w)
           \<and> nextUpstream w' = nextUpstream w
           \<and> upstreamReady w' = upstreamReady w
           \<and> openaiWs (heap w' s) = openaiWs (heap w s)
           \<and> (openaiWs (heap w s) = None \<longrightarrow> openaiWs (heap w' s) = None)"
  using assms by (simp add: handler_defs)

theorem missing_credential_reported_witness:
  "no_key (OPENAI_API_KEY (after None [Connection ''session_1'']))
   \<and> (\<exists>w'. handleClientMessage (after None [Connection ''session_1'']) 0
              (SessionStart (example_config True)) = Inr w'
        \<and> effects w' = effects (after None [Connection ''session_1'']) @
             [ClientSend 0 (ErrorMessage (JStr ''OpenAI API key not configured''))]
        \<and> nextUpstream w' = 0
        \<and> openaiWs (heap w' 0) = None)"
proof -
  have k: "no_key (OPENAI_API_KEY (after None [Connection ''session_1'']))"
    by (simp add: eval_defs)
  have h: "clientReady (after None [Connection ''session_1''])
             (clientWs (heap (after None [Connection ''session_1'']) 0)) = OPEN"
      "clientWs (heap (after None [Connection ''session_1'']) 0) = 0"
      "clientReady (after None [Connection ''session_1'']) 0 = OPEN"
      "nextUpstream (after None [Connection ''session_1'']) = 0"
      "openaiWs (heap (after None [Connection ''session_1'']) 0) = None"
    by (simp_all add: eval_defs)
  from missing_credential_reported [OF k, of 0 "example_config True"] k show ?thesis
    by (auto simp: h)
qed

text \<open>
  C8. When the upstream connection opens, the relay sends it exactly one negotiation
  message and then tells the client \<^verbatim>\<open>session.ready\<close>. The negotiation declares
  the modalities text and audio, the session's prompt as instructions (a generic text
  when the prompt is empty), the session's voice (\<^verbatim>\<open>alloy\<close> when it is empty),
  \<^verbatim>\<open>pcm16\<close> for input and output audio, transcription, and server-side turn
  detection with a threshold in \<open>[0, 1]\<close> and padding and silence durations that are
  whole numbers of milliseconds.
\<close>

theorem negotiation_on_open:
  assumes "a < nextUpstream w"
    and "upstreamReady w a = CONNECTING"
    and "upstreamSession w a = s"
    and "clientReady w (clientWs (heap w s)) = OPEN"
    and "config (heap w s) = Some cfg"
  shows "\<exists>w' su. step w (UpstreamOpenEv a) = Inr w'
           \<and> effects w' = effects w @
                [UpstreamSend a (SessionUpdate su),
                 ClientSend (clientWs (heap w s)) SessionReady]
           \<and> modalities su = [''text'', ''audio'']
           \<and> instructions su =
                (if prompt cfg = [] then ''You are a helpful assistant.'' else prompt cfg)
           \<and> session_voice su = (if voice cfg = [] then ''alloy'' else voice cfg)
           \<and> input_audio_format su = ''pcm16''
           \<and> output_audio_format su = ''pcm16''
           \<and> input_audio_transcription_model su = ''whisper-1''
           \<and> td_type (turn_detection su) = ''server_vad''
           \<and> 0 \<le> threshold (turn_detection su) \<and> threshold (turn_detection su) \<le> 1
           \<and> prefix_padding_ms (turn_detection su) \<in> \<int>
           \<and> silence_duration_ms (turn_detection su) \<in> \<int>"
  using assms by (simp add: handler_defs sessionUpdate_def config_string_def)

theorem negotiation_on_open_witness:
  "upstreamReady (after (Some ''sk-test'') started) 0 = CONNECTING
   \<and> (\<exists>w' su. step (after (Some ''sk-test'') started) (UpstreamOpenEv 0) = Inr w'
        \<and> effects w' = effects (after (Some ''sk-test'') started) @
             [UpstreamSend 0 (SessionUpdate su), ClientSend 0 SessionReady]
        \<and> instructions su = ''Be brief.''
        \<and> session_voice su = ''shimmer''
        \<and> 0 \<le> threshold (turn_detection su) \<and> threshold (turn_detection su) \<le> 1)"
proof -
  have h: "0 < nextUpstream (after (Some ''sk-test'') started)"
      "upstreamReady (after (Some ''sk-test'') started) 0 = CONNECTING"
      "upstreamSession (after (Some ''sk-test'') started) 0 = 0"
      "clientReady (after (Some ''sk-test'') started)
         (clientWs (heap (after (Some ''sk-test'') started) 0)) = OPEN"
      "config (heap (after (Some ''sk-test'') started) 0) = Some (example_config True)"
    by (simp_all add: eval_defs)
  have g: "clientWs (heap (after (Some ''sk-test'') started) 0) = 0"
      "prompt (example_config True) = ''Be brief.''"
      "voice (example_config True) = ''shimmer''"
    by (simp_all add: eval_defs)
  from negotiation_on_open [OF h] have
    "\<exists>w' su. step (after (Some ''sk-test'') started) (UpstreamOpenEv 0) = Inr w'
        \<and> effects w' = effects (after (Some ''sk-test'') started) @
             [UpstreamSend 0 (SessionUpdate su), ClientSend 0 SessionReady]
        \<and> instructions su = ''Be brief.''
        \<and> session_voice su = ''shimmer''
        \<and> 0 \<le> threshold (turn_detection su) \<and> threshold (turn_detection su) \<le> 1"
    unfolding g by fastforce
  with h(2) show ?thesis by simp
qed

text \<open>
  C9. An \<^verbatim>\<open>audio.input\<close> message is forwarded, payload unchanged, as one
  \<^verbatim>\<open>input_audio_buffer.append\<close> instruction on the session's upstream link exactly
  when that link is open. When the session has no link, or the link is not open, the
  message is dropped: nothing is sent to anyone, the client gets no error.
\<close>

theorem audio_input_forwarded_iff_open:
  "(openaiWs (heap w s) = Some a \<and> upstreamReady w a = OPEN \<longrightarrow>
      handleClientMessage w s (AudioInput audio) =
        Inr (w\<lparr>effects := effects w @ [UpstreamSend a (InputAudioBufferAppend audio)]\<rparr>))
   \<and> (openaiWs (heap w s) = None
        \<or> (openaiWs (heap w s) = Some a \<and> upstreamReady w a \<noteq> OPEN) \<longrightarrow>
      handleClientMessage w s (AudioInput audio) = Inr w)"
proof (cases "openaiWs (heap w s)")
  case None
  then show ?thesis by (simp add: handleClientMessage_def handle_readyState_def)
next
  case (Some b)
  then show ?thesis
    by (simp add: handleClientMessage_def handle_readyState_def ws_send_upstream_def)
qed

theorem audio_input_forwarded_iff_open_witness:
  "openaiWs (heap (after (Some ''sk-test'') opened) 0) = Some 0
   \<and> upstreamReady (after (Some ''sk-test'') opened) 0 = OPEN
   \<and> handleClientMessage (after (Some ''sk-test'') opened) 0 (AudioInput ''AAAA'') =
       Inr ((after (Some ''sk-test'') opened)
              \<lparr>effects := effects (after (Some ''sk-test'') opened) @
                 [UpstreamSend 0 (InputAudioBufferAppend ''AAAA'')]\<rparr>)
   \<and> upstreamReady (after (Some ''sk-test'') started) 0 \<noteq> OPEN
   \<and> handleClientMessage (after (Some ''sk-test'') started) 0 (AudioInput ''AAAA'') =
       Inr (after (Some ''sk-test'') started)"
proof -
  have h: "openaiWs (heap (after (Some ''sk-test'') opened) 0) = Some 0"
      "upstreamReady (after (Some ''sk-test'') opened) 0 = OPEN"
      "openaiWs (heap (after (Some ''sk-test'') started) 0) = Some 0"
      "upstreamReady (after (Some ''sk-test'') started) 0 = CONNECTING"
    by (simp_all add: eval_defs)
  from audio_input_forwarded_iff_open [of "after (Some ''sk-test'') opened" 0 0 "''AAAA''"]
       audio_input_forwarded_iff_open [of "after (Some ''sk-test'') started" 0 0 "''AAAA''"]
  show ?thesis
    by (simp add: h)
qed

text \<open>
  C10. \<open>sendToClient\<close> sends when the client socket is open and is a silent no-op
  when it is not; it never fails. Every frame to a client goes through it: whatever
  event the relay handles, no handler throws, and a client whose socket is not open
  receives nothing, in that event and in all that follow.
\<close>

theorem send_to_closed_client_is_noop:
  "(clientReady w c \<noteq> OPEN \<longrightarrow> sendToClient w c m = Inr w)
   \<and> (clientReady w c = OPEN \<longrightarrow>
        sendToClient w c m = Inr (w\<lparr>effects := effects w @ [ClientSend c m]\<rparr>))
   \<and> (\<forall>e. \<exists>w'. step w e = Inr w'
          \<and> (c < nextSession w \<and> clientReady w c \<noteq> OPEN \<longrightarrow>
               clientReady w' c \<noteq> OPEN
               \<and> sent_to_client c (effects w') = sent_to_client c (effects w)))
   \<and> (\<forall>es. \<exists>w'. run w es = Inr w'
          \<and> (c < nextSession w \<and> clientReady w c \<noteq> OPEN \<longrightarrow>
               clientReady w' c \<noteq> OPEN
               \<and> sent_to_client c (effects w') = sent_to_client c (effects w)))"
proof -
  have one: "\<exists>w'. step w e = Inr w'
          \<and> (c < nextSession w \<and> clientReady w c \<noteq> OPEN \<longrightarrow>
               clientReady w' c \<noteq> OPEN
               \<and> sent_to_client c (effects w') = sent_to_client c (effects w))" for e
  proof -
    obtain w' where s: "step w e = Inr w'" using step_total by blast
    show ?thesis
      using s step_client_gone [of w c e w'] by (auto simp: client_gone_def)
  qed
  have many: "\<exists>w'. run w es = Inr w'
          \<and> (c < nextSession w \<and> clientReady w c \<noteq> OPEN \<longrightarrow>
               clientReady w' c \<noteq> OPEN
               \<and> sent_to_client c (effects w') = sent_to_client c (effects w))" for es
  proof (cases "client_gone w c")
    case True
    from run_client_gone [OF True, of es] show ?thesis
      by (auto simp: client_gone_def)
  next
    case False
    then show ?thesis
      using run_total [of w es] by (auto simp: client_gone_def)
  qed
  from one many show ?thesis
    by (simp add: sendToClient_eq)
qed

theorem send_to_closed_client_is_noop_witness:
  "clientReady (after (Some ''sk-test'') (opened @ [ClientCloseEv 0])) 0 = CLOSED
   \<and> sendToClient (after (Some ''sk-test'') (opened @ [ClientCloseEv 0])) 0 SessionEnded
       = Inr (after (Some ''sk-test'') (opened @ [ClientCloseEv 0]))
   \<and> (\<exists>w'. step (after (Some ''sk-test'') (opened @ [ClientCloseEv 0])) (UpstreamCloseEv 0)
              = Inr w'
        \<and> sent_to_client 0 (effects w')
            = [ClientSend 0 (SessionCreated ''session_1''), ClientSend 0 SessionReady])"
proof -
  have h: "clientReady (after (Some ''sk-test'') (opened @ [ClientCloseEv 0])) 0 = CLOSED"
      "0 < nextSession (after (Some ''sk-test'') (opened @ [ClientCloseEv 0]))"
      "sent_to_client 0 (effects (after (Some ''sk-test'') (opened @ [ClientCloseEv 0])))
         = [ClientSend 0 (SessionCreated ''session_1''), ClientSend 0 SessionReady]"
    by (simp_all add: eval_defs)
  from send_to_closed_client_is_noop
         [of "after (Some ''sk-test'') (opened @ [ClientCloseEv 0])" 0 SessionEnded]
  have "sendToClient (after (Some ''sk-test'') (opened @ [ClientCloseEv 0])) 0 SessionEnded
          = Inr (after (Some ''sk-test'') (opened @ [ClientCloseEv 0]))
      \<and> (\<forall>e. \<exists>w'. step (after (Some ''sk-test'') (opened @ [ClientCloseEv 0])) e = Inr w'
          \<and> clientReady w' 0 \<noteq> OPEN
          \<and> sent_to_client 0 (effects w')
              = [ClientSend 0 (SessionCreated ''session_1''), ClientSend 0 SessionReady])"
    using h by simp
  then show ?thesis
    using h(1) by blast
qed

end
